theory Spec2Isabelle
  imports Complex_Main
begin

section \<open>NotebookLM URL batch adder (scripts/notebooklm_add_urls.py)\<close>

text \<open>
  The script reads one JSON request from standard input, resolves a notebook, submits
  every URL to it, waits for the submitted sources and writes one JSON report. All
  remote work is done by the \<^verbatim>\<open>notebooklm\<close> client library, which is not part of the
  repository: it is a parameter of the model, a record of operations on an arbitrary
  remote state. Every operation may raise.
\<close>

subsection \<open>Values\<close>

text \<open>
  What \<^verbatim>\<open>json.load\<close> returns: \<^verbatim>\<open>None\<close>, \<^verbatim>\<open>bool\<close>, \<^verbatim>\<open>int\<close>, \<^verbatim>\<open>float\<close> (kept as its
  repr, the script never computes with one), \<^verbatim>\<open>str\<close>, \<^verbatim>\<open>list\<close> and \<^verbatim>\<open>dict\<close> (its items
  in insertion order). The reports handed to \<^verbatim>\<open>json.dump\<close> are values of the same type.
  A \<open>string\<close> is a list of bytes: it is the Python string for ASCII text.
\<close>

datatype json =
    JNull
  | JBool bool
  | JInt int
  | JFloat string
  | JStr string
  | JArr "json list"
  | JObj "(string \<times> json) list"

text \<open>
  The exception classes the script names, and the ones the interpreter raises in it;
  \<open>OtherException\<close> is any other class. An \<open>exn\<close> is an instance of \<^verbatim>\<open>Exception\<close>: its
  class, the classes below \<^verbatim>\<open>Exception\<close> that its class derives from, and \<^verbatim>\<open>str(e)\<close>. The
  classes of \<^verbatim>\<open>notebooklm.exceptions\<close> are not part of the repository, so how they derive
  from each other is left to the exception a call raises: a \<open>RateLimitError\<close> may have
  \<open>RPCError\<close> among its bases (the library) or no base (the stub of conftest.py).
  Signals below \<^verbatim>\<open>BaseException\<close> only (interpreter exit, keyboard interrupt) are not
  modelled.
\<close>

datatype exc_class =
    RPCError | SourceAddError | RateLimitError | TimeoutError
  | JSONDecodeError | KeyError | LookupError | TypeError | AttributeError | OtherException

datatype exn = Exn (exc_class: exc_class) (exc_bases: "exc_class list") (str_exn: string)

text \<open>
  \<^verbatim>\<open>except C\<close> catches an exception whose class is \<open>C\<close> or derives from \<open>C\<close>.
\<close>

definition isinstance :: "exn \<Rightarrow> exc_class \<Rightarrow> bool" where
  "isinstance e C = (exc_class e = C \<or> C \<in> set (exc_bases e))"

record notebook =
  nb_id :: string
  nb_title :: string

record source =
  src_id :: string

subsection \<open>The collaborators\<close>

text \<open>
  The operations the script calls, on a remote state \<open>'s\<close>; each returns what the
  awaited call returns or raises, and the state it leaves. \<open>from_storage\<close>, \<open>aenter\<close> and
  \<open>aexit\<close> are \<^verbatim>\<open>NotebookLMClient.from_storage()\<close> and the two halves of
  \<^verbatim>\<open>async with\<close>; \<open>aexit\<close> returns a false value (it never swallows an exception of the
  block, as the mock of the tests) or raises. Two builtins of the interpreter stand
  beside them: \<open>py_str\<close> is \<^verbatim>\<open>str()\<close> on a value that is not a string, \<open>py_lower\<close> is
  \<^verbatim>\<open>str.lower()\<close>, which lowers every cased character of Unicode.
\<close>

record 's env =
  from_storage :: "'s \<Rightarrow> exn option \<times> 's"
  aenter :: "'s \<Rightarrow> exn option \<times> 's"
  aexit :: "'s \<Rightarrow> exn option \<times> 's"
  notebooks_get :: "json \<Rightarrow> 's \<Rightarrow> (exn + notebook) \<times> 's"
  notebooks_list :: "'s \<Rightarrow> (exn + notebook list) \<times> 's"
  notebooks_create :: "json \<Rightarrow> 's \<Rightarrow> (exn + notebook) \<times> 's"
  sources_add_url :: "string \<Rightarrow> json \<Rightarrow> bool \<Rightarrow> 's \<Rightarrow> (exn + source) \<times> 's"
  sources_wait_for_sources :: "string \<Rightarrow> string list \<Rightarrow> real \<Rightarrow> 's \<Rightarrow> exn option \<times> 's"
  py_str :: "json \<Rightarrow> string"
  py_lower :: "string \<Rightarrow> string"

text \<open>The calls issued to the client, with their arguments, in the order of issue.\<close>

datatype call =
    FromStorage
  | AEnter
  | AExit
  | NotebooksGet json
  | NotebooksList
  | NotebooksCreate json
  | SourcesAddUrl string json bool
  | WaitForSources string "string list" real

text \<open>
  The state a run threads: the remote state, the calls issued so far (oldest first) and
  the objects written to standard output with \<^verbatim>\<open>json.dump\<close> (oldest first).
\<close>

record 's world =
  remote :: 's
  calls :: "call list"
  stdout :: "json list"

definition issue :: "call \<Rightarrow> ('s \<Rightarrow> 'r \<times> 's) \<Rightarrow> 's world \<Rightarrow> 'r \<times> 's world" where
  "issue k op w =
     (case op (remote w) of
        (r, s') \<Rightarrow> (r, w\<lparr>remote := s', calls := calls w @ [k]\<rparr>))"

subsection \<open>Interpreter operations on a parsed value\<close>

text \<open>\<^verbatim>\<open>input_data[key]\<close> for a string key.\<close>

fun subscript :: "json \<Rightarrow> string \<Rightarrow> exn + json" where
  "subscript (JObj kvs) key =
     (case map_of kvs key of
        Some v \<Rightarrow> Inr v
      | None \<Rightarrow> Inl (Exn KeyError [LookupError] ([CHR 39] @ key @ [CHR 39])))"
| "subscript (JArr xs) key =
     Inl (Exn TypeError [] ''list indices must be integers or slices, not str'')"
| "subscript (JStr s) key =
     Inl (Exn TypeError [] (''string indices must be integers, not '' @ [CHR 39] @ ''str'' @ [CHR 39]))"
| "subscript (JInt i) key =
     Inl (Exn TypeError [] ([CHR 39] @ ''int'' @ [CHR 39] @ '' object is not subscriptable''))"
| "subscript (JFloat f) key =
     Inl (Exn TypeError [] ([CHR 39] @ ''float'' @ [CHR 39] @ '' object is not subscriptable''))"
| "subscript (JBool b) key =
     Inl (Exn TypeError [] ([CHR 39] @ ''bool'' @ [CHR 39] @ '' object is not subscriptable''))"
| "subscript JNull key =
     Inl (Exn TypeError [] ([CHR 39] @ ''NoneType'' @ [CHR 39] @ '' object is not subscriptable''))"

text \<open>
  \<^verbatim>\<open>for url in urls\<close>: the items of a list, the characters of a string, the keys of a
  dict; anything else is not iterable.
\<close>

fun py_iter :: "json \<Rightarrow> exn + json list" where
  "py_iter (JArr xs) = Inr xs"
| "py_iter (JStr s) = Inr (map (\<lambda>ch. JStr [ch]) s)"
| "py_iter (JObj kvs) = Inr (map (\<lambda>kv. JStr (fst kv)) kvs)"
| "py_iter (JInt i) =
     Inl (Exn TypeError [] ([CHR 39] @ ''int'' @ [CHR 39] @ '' object is not iterable''))"
| "py_iter (JFloat f) =
     Inl (Exn TypeError [] ([CHR 39] @ ''float'' @ [CHR 39] @ '' object is not iterable''))"
| "py_iter (JBool b) =
     Inl (Exn TypeError [] ([CHR 39] @ ''bool'' @ [CHR 39] @ '' object is not iterable''))"
| "py_iter JNull =
     Inl (Exn TypeError [] ([CHR 39] @ ''NoneType'' @ [CHR 39] @ '' object is not iterable''))"

definition no_lower :: "string \<Rightarrow> exn" where
  "no_lower ty =
     Exn AttributeError [] ([CHR 39] @ ty @ [CHR 39] @ '' object has no attribute ''
                          @ [CHR 39] @ ''lower'' @ [CHR 39])"

text \<open>\<^verbatim>\<open>target.lower()\<close>: only a string has the method.\<close>

fun target_lower :: "'s env \<Rightarrow> json \<Rightarrow> exn + string" where
  "target_lower c (JStr s) = Inr (py_lower c s)"
| "target_lower c (JArr xs) = Inl (no_lower ''list'')"
| "target_lower c (JObj kvs) = Inl (no_lower ''dict'')"
| "target_lower c (JInt i) = Inl (no_lower ''int'')"
| "target_lower c (JFloat f) = Inl (no_lower ''float'')"
| "target_lower c (JBool b) = Inl (no_lower ''bool'')"
| "target_lower c JNull = Inl (no_lower ''NoneType'')"

text \<open>\<^verbatim>\<open>f"{url}"\<close>: a string is itself, any other value goes through \<^verbatim>\<open>str()\<close>.\<close>

fun format_value :: "'s env \<Rightarrow> json \<Rightarrow> string" where
  "format_value c (JStr s) = s"
| "format_value c v = py_str c v"

subsection \<open>resolve_notebook\<close>

text \<open>The \<^verbatim>\<open>for nb in notebooks\<close> loop: the first notebook whose lowered title is the lowered target.\<close>

fun find_title :: "'s env \<Rightarrow> string \<Rightarrow> notebook list \<Rightarrow> notebook option" where
  "find_title c tlow [] = None"
| "find_title c tlow (nb # nbs) =
     (if py_lower c (nb_title nb) = tlow then Some nb else find_title c tlow nbs)"

definition resolve_notebook ::
  "'s env \<Rightarrow> json \<Rightarrow> 's world \<Rightarrow> (exn + string \<times> string) \<times> 's world" where
  "resolve_notebook c target w =
     (case issue (NotebooksGet target) (notebooks_get c target) w of
        (Inr nb, w1) \<Rightarrow> (Inr (nb_id nb, nb_title nb), w1)
      | (Inl e, w1) \<Rightarrow>
          if \<not> isinstance e RPCError then (Inl e, w1)
          else
            (case issue NotebooksList (notebooks_list c) w1 of
               (Inl e2, w2) \<Rightarrow> (Inl e2, w2)
             | (Inr nbs, w2) \<Rightarrow>
                 (case target_lower c target of
                    Inl e3 \<Rightarrow> (Inl e3, w2)
                  | Inr tlow \<Rightarrow>
                      (case find_title c tlow nbs of
                         Some nb \<Rightarrow> (Inr (nb_id nb, nb_title nb), w2)
                       | None \<Rightarrow>
                           (case issue (NotebooksCreate target) (notebooks_create c target) w2 of
                              (Inl e4, w3) \<Rightarrow> (Inl e4, w3)
                            | (Inr nb, w3) \<Rightarrow> (Inr (nb_id nb, nb_title nb), w3))))))"

subsection \<open>add_urls_phase1\<close>

text \<open>
  The body of the loop, with the two lists it appends to. A \<open>SourceAddError\<close> or
  \<open>RateLimitError\<close> is recorded with its own message, any other exception with the
  prefix; the loop goes on in every case.
\<close>

fun add_urls_loop ::
  "'s env \<Rightarrow> string \<Rightarrow> json list \<Rightarrow> string list \<Rightarrow> (json \<times> string) list \<Rightarrow> 's world
     \<Rightarrow> (string list \<times> (json \<times> string) list) \<times> 's world" where
  "add_urls_loop c notebook_id [] added_source_ids failed w = ((added_source_ids, failed), w)"
| "add_urls_loop c notebook_id (url # urls) added_source_ids failed w =
     (case issue (SourcesAddUrl notebook_id url False) (sources_add_url c notebook_id url False) w of
        (Inr src, w1) \<Rightarrow>
          add_urls_loop c notebook_id urls (added_source_ids @ [src_id src]) failed w1
      | (Inl e, w1) \<Rightarrow>
          if isinstance e SourceAddError \<or> isinstance e RateLimitError
          then add_urls_loop c notebook_id urls added_source_ids (failed @ [(url, str_exn e)]) w1
          else add_urls_loop c notebook_id urls added_source_ids
                 (failed @ [(url, ''Unexpected error: '' @ str_exn e)]) w1)"

definition add_urls_phase1 ::
  "'s env \<Rightarrow> string \<Rightarrow> json \<Rightarrow> 's world
     \<Rightarrow> (exn + string list \<times> (json \<times> string) list) \<times> 's world" where
  "add_urls_phase1 c notebook_id urls w =
     (case py_iter urls of
        Inl e \<Rightarrow> (Inl e, w)
      | Inr us \<Rightarrow>
          (case add_urls_loop c notebook_id us [] [] w of (r, w') \<Rightarrow> (Inr r, w')))"

subsection \<open>wait_for_sources_phase2\<close>

text \<open>\<open>None\<close> is a normal return, \<open>Some e\<close> the exception that leaves the function.\<close>

definition wait_for_sources_phase2 ::
  "'s env \<Rightarrow> string \<Rightarrow> string list \<Rightarrow> real \<Rightarrow> 's world \<Rightarrow> exn option \<times> 's world" where
  "wait_for_sources_phase2 c notebook_id source_ids timeout w =
     (if source_ids = [] then (None, w)
      else
        (case issue (WaitForSources notebook_id source_ids timeout)
                (sources_wait_for_sources c notebook_id source_ids timeout) w of
           (None, w1) \<Rightarrow> (None, w1)
         | (Some e, w1) \<Rightarrow>
             if isinstance e TimeoutError then (None, w1) else (Some e, w1)))"

definition default_timeout :: real where
  "default_timeout = 120"

subsection \<open>main\<close>

definition error_messages :: "'s env \<Rightarrow> (json \<times> string) list \<Rightarrow> json list" where
  "error_messages c failed = map (\<lambda>(url, error). JStr (format_value c url @ '': '' @ error)) failed"

definition result ::
  "'s env \<Rightarrow> string \<Rightarrow> string \<Rightarrow> string list \<Rightarrow> (json \<times> string) list \<Rightarrow> json" where
  "result c notebook_id notebook_title added_source_ids failed =
     JObj [(''notebook_id'', JStr notebook_id),
           (''notebook_title'', JStr notebook_title),
           (''added'', JInt (int (length added_source_ids))),
           (''failed'', JInt (int (length failed))),
           (''errors'', JArr (error_messages c failed))]"

definition error_result :: "exn \<Rightarrow> json" where
  "error_result e =
     JObj [(''notebook_id'', JStr ''''),
           (''notebook_title'', JStr ''''),
           (''added'', JInt 0),
           (''failed'', JInt 0),
           (''errors'', JArr [JStr (''Script error: '' @ str_exn e)])]"

definition dump :: "json \<Rightarrow> 's world \<Rightarrow> 's world" where
  "dump v w = w\<lparr>stdout := stdout w @ [v]\<rparr>"

text \<open>The block of the \<^verbatim>\<open>async with\<close>: \<open>Some e\<close> is the exception that leaves it.\<close>

definition main_block :: "'s env \<Rightarrow> json \<Rightarrow> json \<Rightarrow> 's world \<Rightarrow> exn option \<times> 's world" where
  "main_block c notebook_target urls w =
     (case resolve_notebook c notebook_target w of
        (Inl e, w1) \<Rightarrow> (Some e, w1)
      | (Inr (notebook_id, notebook_title), w1) \<Rightarrow>
          (case add_urls_phase1 c notebook_id urls w1 of
             (Inl e, w2) \<Rightarrow> (Some e, w2)
           | (Inr (added_source_ids, failed), w2) \<Rightarrow>
               (case wait_for_sources_phase2 c notebook_id added_source_ids default_timeout w2 of
                  (Some e, w3) \<Rightarrow> (Some e, w3)
                | (None, w3) \<Rightarrow>
                    (None, dump (result c notebook_id notebook_title added_source_ids failed) w3))))"

text \<open>
  The \<^verbatim>\<open>try\<close> suite. \<open>stdin_json\<close> is what \<^verbatim>\<open>json.load(sys.stdin)\<close> returns or raises.
  The session is released after the block on every path; an exception of the release
  replaces the one of the block.
\<close>

definition main_try :: "'s env \<Rightarrow> exn + json \<Rightarrow> 's world \<Rightarrow> exn option \<times> 's world" where
  "main_try c stdin_json w =
     (case stdin_json of
        Inl e \<Rightarrow> (Some e, w)
      | Inr input_data \<Rightarrow>
          (case subscript input_data ''notebook'' of
             Inl e \<Rightarrow> (Some e, w)
           | Inr notebook_target \<Rightarrow>
               (case subscript input_data ''urls'' of
                  Inl e \<Rightarrow> (Some e, w)
                | Inr urls \<Rightarrow>
                    (case issue FromStorage (from_storage c) w of
                       (Some e, w1) \<Rightarrow> (Some e, w1)
                     | (None, w1) \<Rightarrow>
                         (case issue AEnter (aenter c) w1 of
                            (Some e, w2) \<Rightarrow> (Some e, w2)
                          | (None, w2) \<Rightarrow>
                              (case main_block c notebook_target urls w2 of
                                 (rb, w3) \<Rightarrow>
                                   (case issue AExit (aexit c) w3 of
                                      (Some e, w4) \<Rightarrow> (Some e, w4)
                                    | (None, w4) \<Rightarrow> (rb, w4))))))))"

text \<open>The whole of \<open>main\<close>: the exit status of the process and the final state.\<close>

definition main :: "'s env \<Rightarrow> exn + json \<Rightarrow> 's world \<Rightarrow> nat \<times> 's world" where
  "main c stdin_json w =
     (case main_try c stdin_json w of
        (None, w') \<Rightarrow> (0, w')
      | (Some e, w') \<Rightarrow> (1, dump (error_result e) w'))"

definition start :: "'s \<Rightarrow> 's world" where
  "start s = \<lparr>remote = s, calls = [], stdout = []\<rparr>"


subsection \<open>Reference points for the statements\<close>

text \<open>
  What the client answers when \<^verbatim>\<open>add_url\<close> is called once for each URL, in the order of the
  list, every call on the remote state the call before it left: the answers, aligned
  with the URLs, and the last state.
\<close>

fun submit_seq :: "'s env \<Rightarrow> string \<Rightarrow> json list \<Rightarrow> 's \<Rightarrow> (exn + source) list \<times> 's" where
  "submit_seq c notebook_id [] s = ([], s)"
| "submit_seq c notebook_id (url # urls) s =
     (case sources_add_url c notebook_id url False s of
        (r, s1) \<Rightarrow> (case submit_seq c notebook_id urls s1 of (rs, s2) \<Rightarrow> (r # rs, s2)))"

text \<open>The pair the two \<^verbatim>\<open>except\<close> clauses of the loop record for a URL whose call raised.\<close>

definition failure_entry :: "json \<times> (exn + source) \<Rightarrow> json \<times> string" where
  "failure_entry p =
     (fst p,
      if isinstance (projl (snd p)) SourceAddError \<or> isinstance (projl (snd p)) RateLimitError
      then str_exn (projl (snd p))
      else ''Unexpected error: '' @ str_exn (projl (snd p)))"

definition is_wait :: "call \<Rightarrow> bool" where
  "is_wait k = (case k of WaitForSources n ids t \<Rightarrow> True | _ \<Rightarrow> False)"

subsection \<open>A client for concrete runs\<close>

text \<open>
  A client in the manner of the mocks of test_notebooklm_add_urls.py: fixed answers for
  \<open>get\<close>, \<open>list\<close>, the wait and the release, an answer per URL for \<open>add_url\<close>. The remote
  state counts the notebooks and sources created.
\<close>

text \<open>
  The lower-casing of the concrete client: the 26 capital letters of ASCII change, every
  other byte stays. On ASCII text it is \<^verbatim>\<open>str.lower()\<close>.
\<close>

definition ascii_lower_char :: "char \<Rightarrow> char" where
  "ascii_lower_char ch =
     (case map_of (zip ''ABCDEFGHIJKLMNOPQRSTUVWXYZ'' ''abcdefghijklmnopqrstuvwxyz'') ch of
        Some l \<Rightarrow> l
      | None \<Rightarrow> ch)"

definition ascii_lower :: "string \<Rightarrow> string" where
  "ascii_lower s = map ascii_lower_char s"

definition title_of :: "json \<Rightarrow> string" where
  "title_of v = (case v of JStr s \<Rightarrow> s | _ \<Rightarrow> [])"

definition mock_env ::
  "(exn + notebook) \<Rightarrow> notebook list \<Rightarrow> (json \<Rightarrow> exn + source) \<Rightarrow> exn option \<Rightarrow> exn option
     \<Rightarrow> nat env" where
  "mock_env get_answer listing add_answer wait_answer exit_answer =
     \<lparr>from_storage = (\<lambda>s. (None, s)),
      aenter = (\<lambda>s. (None, s)),
      aexit = (\<lambda>s. (exit_answer, s)),
      notebooks_get = (\<lambda>t s. (get_answer, s)),
      notebooks_list = (\<lambda>s. (Inr listing, s)),
      notebooks_create = (\<lambda>t s. (Inr \<lparr>nb_id = ''new-id-456'', nb_title = title_of t\<rparr>, Suc s)),
      sources_add_url = (\<lambda>n u wt s. (add_answer u, case add_answer u of Inl e \<Rightarrow> s | Inr x \<Rightarrow> Suc s)),
      sources_wait_for_sources = (\<lambda>n ids t s. (wait_answer, s)),
      py_str = (\<lambda>v. ''?''),
      py_lower = ascii_lower\<rparr>"

definition add_answer_test :: "json \<Rightarrow> exn + source" where
  "add_answer_test u =
     (if u = JStr ''https://bad.com'' then Inl (Exn SourceAddError [] ''bad url'')
      else if u = JStr ''https://odd.com'' then Inl (Exn OtherException [] ''boom'')
      else Inr \<lparr>src_id = ''src-1''\<rparr>)"

definition my_docs :: notebook where
  "my_docs = \<lparr>nb_id = ''found-id-789'', nb_title = ''My Docs''\<rparr>"

section \<open>Properties\<close>

subsection \<open>The submission loop\<close>

lemma add_urls_loop_seq:
  "submit_seq c nb us (remote w) = (rs, s') \<Longrightarrow>
   add_urls_loop c nb us added failed w =
     ((added @ map (src_id \<circ> projr) (filter (Not \<circ> isl) rs),
       failed @ map failure_entry (filter (isl \<circ> snd) (zip us rs))),
      w\<lparr>remote := s', calls := calls w @ map (\<lambda>u. SourcesAddUrl nb u False) us\<rparr>)"
proof (induction us arbitrary: added failed w rs s')
  case Nil
  then show ?case by simp
next
  case (Cons u us)
  obtain r s1 where r: "sources_add_url c nb u False (remote w) = (r, s1)"
    by (cases "sources_add_url c nb u False (remote w)")
  obtain rs1 s2 where rs1: "submit_seq c nb us s1 = (rs1, s2)"
    by (cases "submit_seq c nb us s1")
  from Cons.prems r rs1 have eq: "rs = r # rs1" "s' = s2" by auto
  let ?w1 = "w\<lparr>remote := s1, calls := calls w @ [SourcesAddUrl nb u False]\<rparr>"
  have sub: "submit_seq c nb us (remote ?w1) = (rs1, s2)" using rs1 by simp
  show ?case
  proof (cases r)
    case (Inl e)
    then show ?thesis
      using r eq Cons.IH [OF sub] by (simp add: issue_def failure_entry_def)
  next
    case (Inr src)
    then show ?thesis
      using r eq Cons.IH [OF sub] by (simp add: issue_def)
  qed
qed

lemma submit_seq_length: "submit_seq c nb us s = (rs, s') \<Longrightarrow> length rs = length us"
  by (induction us arbitrary: s rs s') (auto split: prod.splits)

lemma add_urls_phase1_seq:
  assumes "submit_seq c nb us (remote w) = (rs, s')"
  shows "add_urls_phase1 c nb (JArr us) w =
     (Inr (map (src_id \<circ> projr) (filter (Not \<circ> isl) rs),
           map failure_entry (filter (isl \<circ> snd) (zip us rs))),
      w\<lparr>remote := s', calls := calls w @ map (\<lambda>u. SourcesAddUrl nb u False) us\<rparr>)"
  using add_urls_loop_seq [OF assms, of "[]" "[]"] by (simp add: add_urls_phase1_def)

lemma add_urls_loop_count:
  "add_urls_loop c nb us added failed w = ((a, f), w') \<Longrightarrow>
   length a + length f = length added + length failed + length us"
proof (induction us arbitrary: added failed w)
  case Nil
  then show ?case by simp
next
  case (Cons u us)
  obtain r w1 where r: "issue (SourcesAddUrl nb u False) (sources_add_url c nb u False) w = (r, w1)"
    by (cases "issue (SourcesAddUrl nb u False) (sources_add_url c nb u False) w")
  show ?case
  proof (cases r)
    case (Inl e)
    with r Cons.prems have
      "\<exists>m. add_urls_loop c nb us added (failed @ [(u, m)]) w1 = ((a, f), w')"
      by (auto split: if_splits)
    then obtain m where "add_urls_loop c nb us added (failed @ [(u, m)]) w1 = ((a, f), w')" ..
    from Cons.IH [OF this] show ?thesis by simp
  next
    case (Inr src)
    with r Cons.prems have
      "add_urls_loop c nb us (added @ [src_id src]) failed w1 = ((a, f), w')"
      by simp
    from Cons.IH [OF this] show ?thesis by simp
  qed
qed

text \<open>
  C1. For a list of URLs, phase 1 always returns (no exception leaves it), and the number
  of source ids it returns plus the number of failures it returns is the length of the
  list: every URL is counted once, on one side.
\<close>

theorem phase1_partition:
  "\<exists>added failed w'.
     add_urls_phase1 c notebook_id (JArr urls) w = (Inr (added, failed), w') \<and>
     length added + length failed = length urls"
proof -
  obtain a f w' where run: "add_urls_loop c notebook_id urls [] [] w = ((a, f), w')"
    by (metis surj_pair)
  from add_urls_loop_count [OF run] have "length a + length f = length urls" by simp
  with run show ?thesis by (simp add: add_urls_phase1_def)
qed

text \<open>
  The same count for any value the loop can iterate (the characters of a string, the
  keys of a dict), whenever phase 1 returns.
\<close>

lemma phase1_count_iter:
  assumes "add_urls_phase1 c notebook_id urls w = (Inr (added, failed), w')"
  shows "\<exists>us. py_iter urls = Inr us \<and> length added + length failed = length us"
proof (cases "py_iter urls")
  case (Inl e)
  with assms show ?thesis by (simp add: add_urls_phase1_def)
next
  case (Inr us)
  with assms have "add_urls_loop c notebook_id us [] [] w = ((added, failed), w')"
    by (simp add: add_urls_phase1_def split: prod.splits)
  from add_urls_loop_count [OF this] Inr show ?thesis by simp
qed

text \<open>
  C2. For a list of URLs, whatever the calls answer: phase 1 issues one \<open>add_url\<close> call for
  every URL of the list, in order, so a failure never stops the URLs after it; it returns
  normally; and the failures it returns are the URLs whose call raised, each with the
  message of the exception when that is a \<open>SourceAddError\<close> or a \<open>RateLimitError\<close>, and
  with that message behind the prefix \<open>Unexpected error: \<close> for any other exception.
  \<open>rs\<close> are the answers of the calls, aligned with the URLs.
\<close>

theorem phase1_failures_do_not_abort:
  assumes "submit_seq c notebook_id urls (remote w) = (rs, s')"
      and "add_urls_phase1 c notebook_id (JArr urls) w = (r, w')"
  shows "calls w' = calls w @ map (\<lambda>url. SourcesAddUrl notebook_id url False) urls \<and>
         length rs = length urls \<and>
         (\<exists>added failed. r = Inr (added, failed) \<and>
            failed =
              map (\<lambda>(url, a). (url,
                     if isinstance (projl a) SourceAddError \<or> isinstance (projl a) RateLimitError
                     then str_exn (projl a)
                     else ''Unexpected error: '' @ str_exn (projl a)))
                (filter (\<lambda>(url, a). isl a) (zip urls rs)))"
proof -
  have fe: "failure_entry = (\<lambda>(url, a). (url,
                     if isinstance (projl a) SourceAddError \<or> isinstance (projl a) RateLimitError
                     then str_exn (projl a)
                     else ''Unexpected error: '' @ str_exn (projl a)))"
    by (rule ext) (simp add: failure_entry_def split: prod.splits)
  have fi: "(isl \<circ> snd) = (\<lambda>(url :: json, a :: exn + source). isl a)"
    by (rule ext) (simp split: prod.splits)
  from add_urls_phase1_seq [OF assms(1)] assms(2) submit_seq_length [OF assms(1)]
  show ?thesis unfolding fe fi by auto
qed

text \<open>
  Four URLs, the second rejected and the third failing unexpectedly: four calls, and
  the two failures with their messages.
\<close>

theorem phase1_failures_do_not_abort_witness:
  "calls (snd (add_urls_phase1 (mock_env (Inl (Exn RPCError [] ''not found'')) [] add_answer_test None None)
       ''nb-id''
       (JArr [JStr ''https://a.com'', JStr ''https://bad.com'', JStr ''https://odd.com'',
              JStr ''https://c.com''])
       (start 0)))
   = [SourcesAddUrl ''nb-id'' (JStr ''https://a.com'') False,
      SourcesAddUrl ''nb-id'' (JStr ''https://bad.com'') False,
      SourcesAddUrl ''nb-id'' (JStr ''https://odd.com'') False,
      SourcesAddUrl ''nb-id'' (JStr ''https://c.com'') False] \<and>
   (\<exists>added.
      fst (add_urls_phase1 (mock_env (Inl (Exn RPCError [] ''not found'')) [] add_answer_test None None)
        ''nb-id''
        (JArr [JStr ''https://a.com'', JStr ''https://bad.com'', JStr ''https://odd.com'',
               JStr ''https://c.com''])
        (start 0))
      = Inr (added, [(JStr ''https://bad.com'', ''bad url''),
                     (JStr ''https://odd.com'', ''Unexpected error: boom'')]))"
proof -
  let ?c = "mock_env (Inl (Exn RPCError [] ''not found'')) [] add_answer_test None None"
  let ?us = "[JStr ''https://a.com'', JStr ''https://bad.com'', JStr ''https://odd.com'', JStr ''https://c.com'']"
  let ?run = "add_urls_phase1 ?c ''nb-id'' (JArr ?us) (start 0)"
  have h: "submit_seq ?c ''nb-id'' ?us (remote (start 0))
           = ([Inr \<lparr>src_id = ''src-1''\<rparr>, Inl (Exn SourceAddError [] ''bad url''),
               Inl (Exn OtherException [] ''boom''), Inr \<lparr>src_id = ''src-1''\<rparr>], 2)"
    by (simp add: mock_env_def add_answer_test_def start_def)
  have run: "?run = (fst ?run, snd ?run)" by simp
  from phase1_failures_do_not_abort [OF h run]
  show ?thesis by (simp add: start_def isinstance_def)
qed

text \<open>
  C6. Phase 1 is the sequential run of the calls: for a list of URLs it issues the
  \<open>add_url\<close> calls in the order of the list, each on the remote state the call before it
  left (so it ends in the state \<open>submit_seq\<close> ends in), and the ids and the failed URLs
  it returns stand in the order of the list.
\<close>

theorem phase1_sequential_in_order:
  assumes "submit_seq c notebook_id urls (remote w) = (rs, s')"
  shows "\<exists>added failed w'.
           add_urls_phase1 c notebook_id (JArr urls) w = (Inr (added, failed), w') \<and>
           remote w' = s' \<and>
           calls w' = calls w @ map (\<lambda>url. SourcesAddUrl notebook_id url False) urls \<and>
           added = map (\<lambda>a. src_id (projr a)) (filter (\<lambda>a. \<not> isl a) rs) \<and>
           map fst failed = map fst (filter (\<lambda>(url, a). isl a) (zip urls rs))"
proof -
  have fe: "fst (failure_entry p) = fst p" for p
    by (simp add: failure_entry_def)
  from add_urls_phase1_seq [OF assms] show ?thesis
    by (simp add: fe comp_def split_def)
qed

text \<open>Three URLs, the first and the last failing: one id, two failures, in the order of the list.\<close>

theorem phase1_sequential_in_order_witness:
  "add_urls_phase1 (mock_env (Inl (Exn RPCError [] ''not found'')) [] add_answer_test None None)
     ''nb-id''
     (JArr [JStr ''https://bad.com'', JStr ''https://a.com'', JStr ''https://odd.com''])
     (start 0)
   = (Inr ([''src-1''],
           [(JStr ''https://bad.com'', ''bad url''),
            (JStr ''https://odd.com'', ''Unexpected error: boom'')]),
      \<lparr>remote = 1,
       calls = [SourcesAddUrl ''nb-id'' (JStr ''https://bad.com'') False,
                SourcesAddUrl ''nb-id'' (JStr ''https://a.com'') False,
                SourcesAddUrl ''nb-id'' (JStr ''https://odd.com'') False],
       stdout = []\<rparr>)"
proof -
  let ?c = "mock_env (Inl (Exn RPCError [] ''not found'')) [] add_answer_test None None"
  let ?us = "[JStr ''https://bad.com'', JStr ''https://a.com'', JStr ''https://odd.com'']"
  have h: "submit_seq ?c ''nb-id'' ?us (remote (start 0))
           = ([Inl (Exn SourceAddError [] ''bad url''), Inr \<lparr>src_id = ''src-1''\<rparr>,
               Inl (Exn OtherException [] ''boom'')], 1)"
    by (simp add: mock_env_def add_answer_test_def start_def)
  from phase1_sequential_in_order [OF h]
  show ?thesis
    by (auto simp: start_def add_urls_phase1_def issue_def mock_env_def add_answer_test_def isinstance_def)
qed

subsection \<open>Resolution\<close>

lemma find_title_first:
  "i < length nbs \<Longrightarrow> py_lower c (nb_title (nbs ! i)) = tlow \<Longrightarrow>
   \<forall>j<i. py_lower c (nb_title (nbs ! j)) \<noteq> tlow \<Longrightarrow>
   find_title c tlow nbs = Some (nbs ! i)"
proof (induction nbs arbitrary: i)
  case Nil
  then show ?case by simp
next
  case (Cons nb nbs)
  show ?case
  proof (cases i)
    case 0
    with Cons.prems show ?thesis by simp
  next
    case (Suc k)
    with Cons.prems have "py_lower c (nb_title nb) \<noteq> tlow" by auto
    moreover from Suc Cons.prems have "find_title c tlow nbs = Some (nbs ! k)"
      by (intro Cons.IH) auto
    ultimately show ?thesis using Suc by simp
  qed
qed

lemma find_title_none:
  "\<forall>nb\<in>set nbs. py_lower c (nb_title nb) \<noteq> tlow \<Longrightarrow> find_title c tlow nbs = None"
  by (induction nbs) auto

lemma find_title_find:
  "find_title c tlow nbs = List.find (\<lambda>nb. py_lower c (nb_title nb) = tlow) nbs"
  by (induction nbs) auto

text \<open>
  C3. For a target string \<open>t\<close>, with \<open>g\<close>, \<open>l\<close> and \<open>cr\<close> what get-by-id, the listing and
  the creation answer: the calls of a resolution are a non-empty prefix of get, list,
  create, in that order; when get-by-id succeeds its notebook is returned and nothing
  else is called; when it raises an exception that \<^verbatim>\<open>except RPCError\<close> catches and the
  listing has a notebook whose lowered title is the lowered target, the first such
  notebook in listing order is returned, with its own title, and nothing is created; a
  notebook is created, with the target itself as title, only when no listed title
  matches. Both sides are lowered by \<open>py_lower\<close>, the \<^verbatim>\<open>str.lower()\<close> of the interpreter,
  whatever it does to a string: the statement holds for every lower-casing.
\<close>

theorem resolve_notebook_order:
  assumes run: "resolve_notebook c (JStr t) w = (r, w')"
      and get: "notebooks_get c (JStr t) (remote w) = (g, s1)"
      and lst: "notebooks_list c s1 = (l, s2)"
      and crt: "notebooks_create c (JStr t) s2 = (cr, s3)"
  shows "(\<exists>k\<in>{1, 2, 3}. calls w' = calls w @
            take k [NotebooksGet (JStr t), NotebooksList, NotebooksCreate (JStr t)]) \<and>
         (\<forall>nb. g = Inr nb \<longrightarrow>
            r = Inr (nb_id nb, nb_title nb) \<and> calls w' = calls w @ [NotebooksGet (JStr t)]) \<and>
         (\<forall>e nbs i. g = Inl e \<and> isinstance e RPCError \<and> l = Inr nbs \<and> i < length nbs \<and>
            py_lower c (nb_title (nbs ! i)) = py_lower c t \<and>
            (\<forall>j<i. py_lower c (nb_title (nbs ! j)) \<noteq> py_lower c t) \<longrightarrow>
            r = Inr (nb_id (nbs ! i), nb_title (nbs ! i)) \<and>
            calls w' = calls w @ [NotebooksGet (JStr t), NotebooksList]) \<and>
         (\<forall>e nbs. g = Inl e \<and> isinstance e RPCError \<and> l = Inr nbs \<and>
            (\<forall>nb\<in>set nbs. py_lower c (nb_title nb) \<noteq> py_lower c t) \<longrightarrow>
            r = (case cr of Inl e4 \<Rightarrow> Inl e4 | Inr nb \<Rightarrow> Inr (nb_id nb, nb_title nb)) \<and>
            calls w' = calls w @
              [NotebooksGet (JStr t), NotebooksList, NotebooksCreate (JStr t)])"
proof (intro conjI allI impI)
  show "\<exists>k\<in>{1, 2, 3}. calls w' = calls w @
            take k [NotebooksGet (JStr t), NotebooksList, NotebooksCreate (JStr t)]"
    using run get lst crt
    by (auto simp: resolve_notebook_def issue_def
             split: sum.splits if_splits option.splits)
next
  fix nb assume "g = Inr nb"
  with run get show "r = Inr (nb_id nb, nb_title nb)"
    by (auto simp: resolve_notebook_def issue_def)
next
  fix nb assume "g = Inr nb"
  with run get show "calls w' = calls w @ [NotebooksGet (JStr t)]"
    by (auto simp: resolve_notebook_def issue_def)
next
  fix e nbs i
  assume h: "g = Inl e \<and> isinstance e RPCError \<and> l = Inr nbs \<and> i < length nbs \<and>
            py_lower c (nb_title (nbs ! i)) = py_lower c t \<and>
            (\<forall>j<i. py_lower c (nb_title (nbs ! j)) \<noteq> py_lower c t)"
  then have f: "find_title c (py_lower c t) nbs = Some (nbs ! i)"
    by (intro find_title_first) auto
  with h run get lst show "r = Inr (nb_id (nbs ! i), nb_title (nbs ! i))"
    by (auto simp: resolve_notebook_def issue_def)
  from f h run get lst show "calls w' = calls w @ [NotebooksGet (JStr t), NotebooksList]"
    by (auto simp: resolve_notebook_def issue_def)
next
  fix e nbs
  assume h: "g = Inl e \<and> isinstance e RPCError \<and> l = Inr nbs \<and>
            (\<forall>nb\<in>set nbs. py_lower c (nb_title nb) \<noteq> py_lower c t)"
  then have f: "find_title c (py_lower c t) nbs = None"
    by (intro find_title_none) auto
  with h run get lst crt
  show "r = (case cr of Inl e4 \<Rightarrow> Inl e4 | Inr nb \<Rightarrow> Inr (nb_id nb, nb_title nb))"
    by (auto simp: resolve_notebook_def issue_def split: sum.splits)
  from f h run get lst crt
  show "calls w' = calls w @ [NotebooksGet (JStr t), NotebooksList, NotebooksCreate (JStr t)]"
    by (auto simp: resolve_notebook_def issue_def split: sum.splits)
qed


text \<open>
  Resolving \<open>my docs\<close> against a listing with \<open>Other\<close>, \<open>My Docs\<close> and \<open>MY DOCS\<close>: the second
  notebook is returned, after a get and a list, and none is created.
\<close>

theorem resolve_notebook_order_witness:
  "fst (resolve_notebook
          (mock_env (Inl (Exn RPCError [] ''not found''))
             [\<lparr>nb_id = ''x1'', nb_title = ''Other''\<rparr>, my_docs,
              \<lparr>nb_id = ''x2'', nb_title = ''MY DOCS''\<rparr>]
             add_answer_test None None)
          (JStr ''my docs'') (start 0))
   = Inr (''found-id-789'', ''My Docs'') \<and>
   calls (snd (resolve_notebook
          (mock_env (Inl (Exn RPCError [] ''not found''))
             [\<lparr>nb_id = ''x1'', nb_title = ''Other''\<rparr>, my_docs,
              \<lparr>nb_id = ''x2'', nb_title = ''MY DOCS''\<rparr>]
             add_answer_test None None)
          (JStr ''my docs'') (start 0)))
   = [NotebooksGet (JStr ''my docs''), NotebooksList]"
proof -
  let ?nbs = "[\<lparr>nb_id = ''x1'', nb_title = ''Other''\<rparr>, my_docs,
               \<lparr>nb_id = ''x2'', nb_title = ''MY DOCS''\<rparr>]"
  let ?c = "mock_env (Inl (Exn RPCError [] ''not found'')) ?nbs add_answer_test None None"
  let ?run = "resolve_notebook ?c (JStr ''my docs'') (start 0)"
  have run: "?run = (fst ?run, snd ?run)" by simp
  have get: "notebooks_get ?c (JStr ''my docs'') (remote (start 0))
             = (Inl (Exn RPCError [] ''not found''), 0)"
    by (simp add: mock_env_def start_def)
  have lst: "notebooks_list ?c 0 = (Inr ?nbs, 0)"
    by (simp add: mock_env_def)
  have crt: "notebooks_create ?c (JStr ''my docs'') 0
             = (Inr \<lparr>nb_id = ''new-id-456'', nb_title = ''my docs''\<rparr>, 1)"
    by (simp add: mock_env_def title_of_def)
  have m: "py_lower ?c (nb_title (?nbs ! 1)) = py_lower ?c ''my docs''"
    by (simp add: mock_env_def my_docs_def ascii_lower_def ascii_lower_char_def)
  have n: "\<forall>j<1. py_lower ?c (nb_title (?nbs ! j)) \<noteq> py_lower ?c ''my docs''"
    by (simp add: mock_env_def my_docs_def ascii_lower_def ascii_lower_char_def)
  have h: "Inl (Exn RPCError [] ''not found'') = (Inl (Exn RPCError [] ''not found'') :: exn + notebook) \<and>
           isinstance (Exn RPCError [] ''not found'') RPCError \<and>
           Inr ?nbs = (Inr ?nbs :: exn + notebook list) \<and> 1 < length ?nbs \<and>
           py_lower ?c (nb_title (?nbs ! 1)) = py_lower ?c ''my docs'' \<and>
           (\<forall>j<1. py_lower ?c (nb_title (?nbs ! j)) \<noteq> py_lower ?c ''my docs'')"
    using m n by (simp add: isinstance_def)
  note third = resolve_notebook_order [OF run get lst crt, THEN conjunct2, THEN conjunct2,
      THEN conjunct1, rule_format, OF h]
  from third show ?thesis by (simp add: my_docs_def start_def)
qed

subsection \<open>What each stage leaves of the state\<close>

lemma issue_eq:
  "issue k op w = (r, w') \<longleftrightarrow>
     r = fst (op (remote w)) \<and> w' = w\<lparr>remote := snd (op (remote w)), calls := calls w @ [k]\<rparr>"
  by (auto simp: issue_def split: prod.splits)

lemma resolve_notebook_frame:
  assumes "resolve_notebook c target w = (r, w')"
  shows "stdout w' = stdout w \<and> filter is_wait (calls w') = filter is_wait (calls w)"
  using assms
  by (auto simp: resolve_notebook_def issue_eq is_wait_def
           split: prod.splits sum.splits if_splits option.splits)

lemma add_urls_loop_frame:
  "add_urls_loop c nb us added failed w = (r, w') \<Longrightarrow>
   stdout w' = stdout w \<and> filter is_wait (calls w') = filter is_wait (calls w)"
proof (induction us arbitrary: added failed w)
  case Nil
  then show ?case by simp
next
  case (Cons u us)
  let ?w1 = "w\<lparr>remote := snd (sources_add_url c nb u False (remote w)),
                calls := calls w @ [SourcesAddUrl nb u False]\<rparr>"
  from Cons.prems obtain added' failed' where
    "add_urls_loop c nb us added' failed' ?w1 = (r, w')"
    by (auto simp: issue_def split: prod.splits sum.splits if_splits)
  from Cons.IH [OF this] show ?case by (simp add: is_wait_def)
qed

lemma add_urls_phase1_frame:
  assumes "add_urls_phase1 c nb urls w = (r, w')"
  shows "stdout w' = stdout w \<and> filter is_wait (calls w') = filter is_wait (calls w)"
proof (cases "py_iter urls")
  case (Inl e)
  with assms show ?thesis by (simp add: add_urls_phase1_def)
next
  case (Inr us)
  with assms obtain r' where "add_urls_loop c nb us [] [] w = (r', w')"
    by (auto simp: add_urls_phase1_def split: prod.splits)
  from add_urls_loop_frame [OF this] show ?thesis .
qed

lemma wait_for_sources_phase2_frame:
  assumes "wait_for_sources_phase2 c nb ids t w = (x, w')"
  shows "stdout w' = stdout w \<and>
         calls w' = calls w @ (if ids = [] then [] else [WaitForSources nb ids t]) \<and>
         remote w' = (if ids = [] then remote w
                      else snd (sources_wait_for_sources c nb ids t (remote w)))"
  using assms
  by (auto simp: wait_for_sources_phase2_def issue_eq split: prod.splits option.splits if_splits)

subsection \<open>The paths of main\<close>

lemma main_before_session:
  assumes "stdin_json = Inl e \<or>
           (\<exists>input. stdin_json = Inr input \<and>
              (subscript input ''notebook'' = Inl e \<or>
               (\<exists>t. subscript input ''notebook'' = Inr t \<and> subscript input ''urls'' = Inl e)))"
  shows "main c stdin_json w = (1, dump (error_result e) w)"
  using assms by (auto simp: main_def main_try_def)

lemma main_after_phase1:
  assumes "stdin_json = Inr input"
      and "subscript input ''notebook'' = Inr target"
      and "subscript input ''urls'' = Inr urls"
      and "issue FromStorage (from_storage c) w = (None, w1)"
      and "issue AEnter (aenter c) w1 = (None, w2)"
      and "resolve_notebook c target w2 = (Inr (n, title), w3)"
      and "add_urls_phase1 c n urls w3 = (Inr (ids, failed), w4)"
      and "wait_for_sources_phase2 c n ids default_timeout w4 = (x, w5)"
      and "issue AExit (aexit c)
             (case x of None \<Rightarrow> dump (result c n title ids failed) w5 | Some e \<Rightarrow> w5) = (y, w6)"
  shows "main c stdin_json w =
           (case y of
              Some e2 \<Rightarrow> (1, dump (error_result e2) w6)
            | None \<Rightarrow> (case x of None \<Rightarrow> (0, w6) | Some e \<Rightarrow> (1, dump (error_result e) w6)))"
  using assms by (simp add: main_def main_try_def main_block_def split: option.splits)

lemma main_exit_0:
  assumes "main c stdin_json w = (0, w')"
  shows "\<exists>input target urls w1 w2 n title w3 ids failed w4 w5.
           stdin_json = Inr input \<and>
           subscript input ''notebook'' = Inr target \<and>
           subscript input ''urls'' = Inr urls \<and>
           issue FromStorage (from_storage c) w = (None, w1) \<and>
           issue AEnter (aenter c) w1 = (None, w2) \<and>
           resolve_notebook c target w2 = (Inr (n, title), w3) \<and>
           add_urls_phase1 c n urls w3 = (Inr (ids, failed), w4) \<and>
           wait_for_sources_phase2 c n ids default_timeout w4 = (None, w5) \<and>
           issue AExit (aexit c) (dump (result c n title ids failed) w5) = (None, w')"
proof -
  from assms obtain w0 where t: "main_try c stdin_json w = (None, w0)" and "w' = w0"
    by (auto simp: main_def split: prod.splits option.splits)
  then have t: "main_try c stdin_json w = (None, w')" by simp
  from t obtain input where a: "stdin_json = Inr input"
    by (cases stdin_json) (auto simp: main_try_def)
  from t a obtain target where b: "subscript input ''notebook'' = Inr target"
    by (cases "subscript input ''notebook''") (auto simp: main_try_def)
  from t a b obtain urls where c: "subscript input ''urls'' = Inr urls"
    by (cases "subscript input ''urls''") (auto simp: main_try_def)
  obtain x1 w1 where d: "issue FromStorage (from_storage c) w = (x1, w1)" by (metis surj_pair)
  with t a b c have d': "x1 = None" by (cases x1) (auto simp: main_try_def)
  obtain x2 w2 where e: "issue AEnter (aenter c) w1 = (x2, w2)" by (metis surj_pair)
  with t a b c d d' have e': "x2 = None" by (cases x2) (auto simp: main_try_def)
  obtain rb wb where f: "main_block c target urls w2 = (rb, wb)" by (metis surj_pair)
  obtain x3 w6 where g: "issue AExit (aexit c) wb = (x3, w6)" by (metis surj_pair)
  from t a b c d d' e e' f g have g': "x3 = None" "rb = None" "w6 = w'"
    by (cases x3; auto simp: main_try_def)+
  obtain r3 w3 where h: "resolve_notebook c target w2 = (r3, w3)" by (metis surj_pair)
  with f g' obtain n title where h': "r3 = Inr (n, title)"
    by (cases r3) (auto simp: main_block_def)
  obtain r4 w4 where i: "add_urls_phase1 c n urls w3 = (r4, w4)" by (metis surj_pair)
  with f g' h h' obtain ids failed where i': "r4 = Inr (ids, failed)"
    by (cases r4) (auto simp: main_block_def)
  obtain x5 w5 where j: "wait_for_sources_phase2 c n ids default_timeout w4 = (x5, w5)"
    by (metis surj_pair)
  with f g' h h' i i' have j': "x5 = None" "wb = dump (result c n title ids failed) w5"
    by (cases x5; auto simp: main_block_def)+
  from a b c d d' e e' h h' i i' j j' g g' show ?thesis by blast
qed

text \<open>
  C10. When standard input does not parse, or parses to an object without the key
  \<open>notebook\<close>, or with it and without the key \<open>urls\<close>, or to a value that is no object:
  the run issues no call at all (the session is not acquired), leaves the remote state
  as it was, writes the degenerate report alone and exits with status 1.
\<close>

theorem main_input_failure_before_session:
  "(\<forall>e. stdin_json = Inl e \<longrightarrow>
      main c stdin_json (start s)
        = (1, \<lparr>remote = s, calls = [], stdout = [error_result e]\<rparr>)) \<and>
   (\<forall>kvs. stdin_json = Inr (JObj kvs) \<and> ''notebook'' \<notin> fst ` set kvs \<longrightarrow>
      main c stdin_json (start s)
        = (1, \<lparr>remote = s, calls = [],
               stdout = [error_result (Exn KeyError [LookupError] ([CHR 39] @ ''notebook'' @ [CHR 39]))]\<rparr>)) \<and>
   (\<forall>kvs. stdin_json = Inr (JObj kvs) \<and> ''notebook'' \<in> fst ` set kvs \<and>
          ''urls'' \<notin> fst ` set kvs \<longrightarrow>
      main c stdin_json (start s)
        = (1, \<lparr>remote = s, calls = [],
               stdout = [error_result (Exn KeyError [LookupError] ([CHR 39] @ ''urls'' @ [CHR 39]))]\<rparr>)) \<and>
   (\<forall>input. stdin_json = Inr input \<and> (\<forall>kvs. input \<noteq> JObj kvs) \<longrightarrow>
      (\<exists>e. exc_class e = TypeError \<and>
           main c stdin_json (start s)
             = (1, \<lparr>remote = s, calls = [], stdout = [error_result e]\<rparr>)))"
proof (intro conjI allI impI)
  fix e assume "stdin_json = Inl e"
  then show "main c stdin_json (start s)
        = (1, \<lparr>remote = s, calls = [], stdout = [error_result e]\<rparr>)"
    using main_before_session [of stdin_json e c "start s"]
    by (simp add: dump_def start_def)
next
  fix kvs assume h: "stdin_json = Inr (JObj kvs) \<and> ''notebook'' \<notin> fst ` set kvs"
  then have "map_of kvs ''notebook'' = None"
    by (simp add: map_of_eq_None_iff)
  then have "subscript (JObj kvs) ''notebook''
             = Inl (Exn KeyError [LookupError] ([CHR 39] @ ''notebook'' @ [CHR 39]))"
    by simp
  with h show "main c stdin_json (start s)
        = (1, \<lparr>remote = s, calls = [],
               stdout = [error_result (Exn KeyError [LookupError] ([CHR 39] @ ''notebook'' @ [CHR 39]))]\<rparr>)"
    using main_before_session
      [of stdin_json "Exn KeyError [LookupError] ([CHR 39] @ ''notebook'' @ [CHR 39])" c "start s"]
    by (simp add: dump_def start_def)
next
  fix kvs assume h: "stdin_json = Inr (JObj kvs) \<and> ''notebook'' \<in> fst ` set kvs \<and>
          ''urls'' \<notin> fst ` set kvs"
  then have "map_of kvs ''urls'' = None"
    by (simp add: map_of_eq_None_iff)
  then have u: "subscript (JObj kvs) ''urls''
             = Inl (Exn KeyError [LookupError] ([CHR 39] @ ''urls'' @ [CHR 39]))"
    by simp
  from h have "map_of kvs ''notebook'' \<noteq> None"
    by (simp add: map_of_eq_None_iff)
  then obtain t where "subscript (JObj kvs) ''notebook'' = Inr t" by auto
  with h u show "main c stdin_json (start s)
        = (1, \<lparr>remote = s, calls = [],
               stdout = [error_result (Exn KeyError [LookupError] ([CHR 39] @ ''urls'' @ [CHR 39]))]\<rparr>)"
    using main_before_session
      [of stdin_json "Exn KeyError [LookupError] ([CHR 39] @ ''urls'' @ [CHR 39])" c "start s"]
    by (simp add: dump_def start_def)
next
  fix input assume h: "stdin_json = Inr input \<and> (\<forall>kvs. input \<noteq> JObj kvs)"
  then obtain e where "subscript input ''notebook'' = Inl e" "exc_class e = TypeError"
    by (cases input) auto
  with h show "\<exists>e. exc_class e = TypeError \<and>
           main c stdin_json (start s)
             = (1, \<lparr>remote = s, calls = [], stdout = [error_result e]\<rparr>)"
    using main_before_session [of stdin_json e c "start s"]
    by (auto simp: dump_def start_def)
qed

text \<open>
  The input \<^verbatim>\<open>{"notebook": "Test"}\<close>, without \<open>urls\<close>: no call, the report of the
  \<open>KeyError\<close>, status 1, with a client whose every call would succeed.
\<close>

theorem main_input_failure_before_session_witness:
  "main (mock_env (Inr my_docs) [] add_answer_test None None)
     (Inr (JObj [(''notebook'', JStr ''Test'')])) (start 0)
   = (1, \<lparr>remote = 0, calls = [],
          stdout = [JObj [(''notebook_id'', JStr ''''), (''notebook_title'', JStr ''''),
                          (''added'', JInt 0), (''failed'', JInt 0),
                          (''errors'', JArr [JStr (''Script error: '' @ [CHR 39] @ ''urls'' @ [CHR 39])])]]\<rparr>)"
proof -
  have h: "Inr (JObj [(''notebook'', JStr ''Test'')]) = (Inr (JObj [(''notebook'', JStr ''Test'')]) :: exn + json) \<and>
           ''notebook'' \<in> fst ` set [(''notebook'', JStr ''Test'')] \<and>
           ''urls'' \<notin> fst ` set [(''notebook'', JStr ''Test'')]"
    by simp
  note third = main_input_failure_before_session [THEN conjunct2, THEN conjunct2, THEN conjunct1,
      rule_format, OF h]
  from third [of "mock_env (Inr my_docs) [] add_answer_test None None" 0]
  show ?thesis by (simp add: error_result_def)
qed

text \<open>
  C8. A run that exits with status 0 has written one object, the report assembled from
  what resolution and phase 1 returned: the id and title of the notebook, \<open>added\<close> the
  number of ids phase 1 returned, \<open>failed\<close> the number of failures it returned, and
  \<open>errors\<close> the failures in the order phase 1 returned them, each as the URL, a colon
  and a space, and the message.
\<close>

theorem main_report_assembly:
  assumes "main c stdin_json (start s) = (0, w')"
  shows "\<exists>input target urls w1 w2 n title w3 ids failed w4.
           stdin_json = Inr input \<and>
           subscript input ''notebook'' = Inr target \<and>
           subscript input ''urls'' = Inr urls \<and>
           issue FromStorage (from_storage c) (start s) = (None, w1) \<and>
           issue AEnter (aenter c) w1 = (None, w2) \<and>
           resolve_notebook c target w2 = (Inr (n, title), w3) \<and>
           add_urls_phase1 c n urls w3 = (Inr (ids, failed), w4) \<and>
           stdout w' =
             [JObj [(''notebook_id'', JStr n),
                    (''notebook_title'', JStr title),
                    (''added'', JInt (int (length ids))),
                    (''failed'', JInt (int (length failed))),
                    (''errors'',
                     JArr (map (\<lambda>(url, message). JStr (format_value c url @ '': '' @ message))
                             failed))]]"
proof -
  from main_exit_0 [OF assms] obtain input target urls w1 w2 n title w3 ids failed w4 w5 where
    a: "stdin_json = Inr input" "subscript input ''notebook'' = Inr target"
       "subscript input ''urls'' = Inr urls"
       "issue FromStorage (from_storage c) (start s) = (None, w1)"
       "issue AEnter (aenter c) w1 = (None, w2)"
       "resolve_notebook c target w2 = (Inr (n, title), w3)"
       "add_urls_phase1 c n urls w3 = (Inr (ids, failed), w4)" and
    b: "wait_for_sources_phase2 c n ids default_timeout w4 = (None, w5)"
       "issue AExit (aexit c) (dump (result c n title ids failed) w5) = (None, w')"
    by blast
  from a(4) have "stdout w1 = []" by (simp add: issue_eq start_def)
  with a(5) have "stdout w2 = []" by (simp add: issue_eq)
  with resolve_notebook_frame [OF a(6)] have "stdout w3 = []" by simp
  with add_urls_phase1_frame [OF a(7)] have "stdout w4 = []" by simp
  with wait_for_sources_phase2_frame [OF b(1)] have "stdout w5 = []" by simp
  with b(2) have "stdout w' = [result c n title ids failed]"
    by (simp add: issue_eq dump_def)
  then have "stdout w' =
             [JObj [(''notebook_id'', JStr n),
                    (''notebook_title'', JStr title),
                    (''added'', JInt (int (length ids))),
                    (''failed'', JInt (int (length failed))),
                    (''errors'',
                     JArr (map (\<lambda>(url, message). JStr (format_value c url @ '': '' @ message))
                             failed))]]"
    by (simp add: result_def error_messages_def)
  with a show ?thesis by blast
qed

text \<open>
  The request \<^verbatim>\<open>{"notebook": "Test", "urls": ["https://a.com", "https://bad.com"]}\<close>, the
  notebook found by id and the second URL rejected: status 0 and the one report.
\<close>

theorem main_report_assembly_witness:
  "main (mock_env (Inr my_docs) [] add_answer_test None None)
     (Inr (JObj [(''notebook'', JStr ''Test''),
                 (''urls'', JArr [JStr ''https://a.com'', JStr ''https://bad.com''])]))
     (start 0)
   = (0, \<lparr>remote = 1,
          calls = [FromStorage, AEnter, NotebooksGet (JStr ''Test''),
                   SourcesAddUrl ''found-id-789'' (JStr ''https://a.com'') False,
                   SourcesAddUrl ''found-id-789'' (JStr ''https://bad.com'') False,
                   WaitForSources ''found-id-789'' [''src-1''] 120, AExit],
          stdout = [JObj [(''notebook_id'', JStr ''found-id-789''),
                          (''notebook_title'', JStr ''My Docs''),
                          (''added'', JInt 1),
                          (''failed'', JInt 1),
                          (''errors'', JArr [JStr ''https://bad.com: bad url''])]]\<rparr>)"
proof -
  let ?c = "mock_env (Inr my_docs) [] add_answer_test None None"
  let ?in = "Inr (JObj [(''notebook'', JStr ''Test''),
                 (''urls'', JArr [JStr ''https://a.com'', JStr ''https://bad.com''])]) :: exn + json"
  have run: "main ?c ?in (start 0) = (0, snd (main ?c ?in (start 0)))"
    by (simp add: main_def main_try_def main_block_def resolve_notebook_def add_urls_phase1_def
          wait_for_sources_phase2_def issue_def mock_env_def add_answer_test_def start_def
          my_docs_def dump_def default_timeout_def)
  from main_report_assembly [OF run]
  have "length (stdout (snd (main ?c ?in (start 0)))) = 1" by auto
  then show ?thesis
    by (simp add: main_def main_try_def main_block_def resolve_notebook_def add_urls_phase1_def
          wait_for_sources_phase2_def issue_def mock_env_def add_answer_test_def start_def
          my_docs_def dump_def default_timeout_def result_def error_messages_def isinstance_def)
qed

subsection \<open>The wait calls of a run\<close>




lemma main_session:
  assumes "stdin_json = Inr input"
      and "subscript input ''notebook'' = Inr target"
      and "subscript input ''urls'' = Inr urls"
      and "issue FromStorage (from_storage c) w = (None, w1)"
      and "issue AEnter (aenter c) w1 = (None, w2)"
      and "main_block c target urls w2 = (rb, w3)"
      and "issue AExit (aexit c) w3 = (y, w4)"
  shows "main c stdin_json w =
           (case y of
              Some e2 \<Rightarrow> (1, dump (error_result e2) w4)
            | None \<Rightarrow> (case rb of None \<Rightarrow> (0, w4) | Some e \<Rightarrow> (1, dump (error_result e) w4)))"
  using assms by (simp add: main_def main_try_def split: option.splits)

lemma session_frame:
  assumes "issue FromStorage (from_storage c) (start s) = (x1, w1)"
      and "issue AEnter (aenter c) w1 = (x2, w2)"
  shows "stdout w2 = [] \<and> filter is_wait (calls w2) = [] \<and>
         calls w2 = [FromStorage, AEnter]"
  using assms by (auto simp: issue_eq start_def is_wait_def)




subsection \<open>The wait and the fatal boundary\<close>

lemma phase1_stdout_empty:
  assumes "issue FromStorage (from_storage c) (start s) = (x1, w1)"
      and "issue AEnter (aenter c) w1 = (x2, w2)"
      and "resolve_notebook c target w2 = (r3, w3)"
      and "add_urls_phase1 c n urls w3 = (r4, w4)"
  shows "stdout w4 = []"
  using session_frame [OF assms(1,2)] resolve_notebook_frame [OF assms(3)]
    add_urls_phase1_frame [OF assms(4)] by simp

text \<open>
  C5. When the wait call raises \<open>e\<close>: phase 2 returns normally if \<open>e\<close> is a \<open>TimeoutError\<close>,
  and lets \<open>e\<close> out if it is not one. In a run of \<open>main\<close> that has reached
  phase 2, a timeout leaves no trace: with a normal release the run writes the normal
  report, whose errors are those of phase 1, and exits with status 0; any other
  exception of the wait is fatal: the run writes the degenerate report alone and exits
  with status 1.
\<close>

theorem wait_timeout_swallowed:
  assumes "sources_wait_for_sources c n ids t (remote w) = (Some e, s')"
      and "ids \<noteq> []"
  shows "(isinstance e TimeoutError \<longrightarrow>
            wait_for_sources_phase2 c n ids t w
              = (None, w\<lparr>remote := s', calls := calls w @ [WaitForSources n ids t]\<rparr>)) \<and>
         (\<not> isinstance e TimeoutError \<longrightarrow>
            wait_for_sources_phase2 c n ids t w
              = (Some e, w\<lparr>remote := s', calls := calls w @ [WaitForSources n ids t]\<rparr>)) \<and>
         (\<forall>stdin_json input target urls s0 w1 w2 title w3 failed y s''.
            t = default_timeout \<and>
            stdin_json = Inr input \<and>
            subscript input ''notebook'' = Inr target \<and>
            subscript input ''urls'' = Inr urls \<and>
            issue FromStorage (from_storage c) (start s0) = (None, w1) \<and>
            issue AEnter (aenter c) w1 = (None, w2) \<and>
            resolve_notebook c target w2 = (Inr (n, title), w3) \<and>
            add_urls_phase1 c n urls w3 = (Inr (ids, failed), w) \<and>
            aexit c s' = (y, s'') \<longrightarrow>
            (isinstance e TimeoutError \<and> y = None \<longrightarrow>
               main c stdin_json (start s0)
                 = (0, \<lparr>remote = s'',
                        calls = calls w @ [WaitForSources n ids 120, AExit],
                        stdout = [result c n title ids failed]\<rparr>)) \<and>
            (\<not> isinstance e TimeoutError \<longrightarrow>
               main c stdin_json (start s0)
                 = (1, \<lparr>remote = s'',
                        calls = calls w @ [WaitForSources n ids 120, AExit],
                        stdout = [error_result (case y of None \<Rightarrow> e | Some e2 \<Rightarrow> e2)]\<rparr>)))"
proof -
  let ?w5 = "w\<lparr>remote := s', calls := calls w @ [WaitForSources n ids t]\<rparr>"
  have swallow: "wait_for_sources_phase2 c n ids t w = (None, ?w5)"
    if "isinstance e TimeoutError"
    using assms that by (simp add: wait_for_sources_phase2_def issue_def)
  have escape: "wait_for_sources_phase2 c n ids t w = (Some e, ?w5)"
    if "\<not> isinstance e TimeoutError"
    using assms that by (simp add: wait_for_sources_phase2_def issue_def)
  have run: "(isinstance e TimeoutError \<and> y = None \<longrightarrow>
               main c stdin_json (start s0)
                 = (0, \<lparr>remote = s'',
                        calls = calls w @ [WaitForSources n ids 120, AExit],
                        stdout = [result c n title ids failed]\<rparr>)) \<and>
            (\<not> isinstance e TimeoutError \<longrightarrow>
               main c stdin_json (start s0)
                 = (1, \<lparr>remote = s'',
                        calls = calls w @ [WaitForSources n ids 120, AExit],
                        stdout = [error_result (case y of None \<Rightarrow> e | Some e2 \<Rightarrow> e2)]\<rparr>))"
    if h: "t = default_timeout \<and>
            stdin_json = Inr input \<and>
            subscript input ''notebook'' = Inr target \<and>
            subscript input ''urls'' = Inr urls \<and>
            issue FromStorage (from_storage c) (start s0) = (None, w1) \<and>
            issue AEnter (aenter c) w1 = (None, w2) \<and>
            resolve_notebook c target w2 = (Inr (n, title), w3) \<and>
            add_urls_phase1 c n urls w3 = (Inr (ids, failed), w) \<and>
            aexit c s' = (y, s'')"
    for stdin_json input target urls s0 w1 w2 title w3 failed y s''
  proof (intro conjI impI)
    from h have i: "stdin_json = Inr input" "subscript input ''notebook'' = Inr target"
      "subscript input ''urls'' = Inr urls"
      "issue FromStorage (from_storage c) (start s0) = (None, w1)"
      "issue AEnter (aenter c) w1 = (None, w2)"
      "resolve_notebook c target w2 = (Inr (n, title), w3)"
      "add_urls_phase1 c n urls w3 = (Inr (ids, failed), w)"
      and t: "t = default_timeout" and ax: "aexit c s' = (y, s'')"
      by simp_all
    from phase1_stdout_empty [OF i(4-7)] have out: "stdout w = []" .
    {
      assume to: "isinstance e TimeoutError \<and> y = None"
      let ?wb = "dump (result c n title ids failed) ?w5"
      let ?w6 = "?wb\<lparr>remote := s'', calls := calls ?wb @ [AExit]\<rparr>"
      from ax to have ex: "issue AExit (aexit c)
          (case (None :: exn option) of None \<Rightarrow> dump (result c n title ids failed) ?w5
             | Some e \<Rightarrow> ?w5) = (None, ?w6)"
        by (simp add: issue_def dump_def)
      from to swallow t have p2: "wait_for_sources_phase2 c n ids default_timeout w = (None, ?w5)"
        by simp
      from main_after_phase1 [OF i p2 ex]
      have "main c stdin_json (start s0) = (0, ?w6)" by simp
      with out t show "main c stdin_json (start s0)
                 = (0, \<lparr>remote = s'',
                        calls = calls w @ [WaitForSources n ids 120, AExit],
                        stdout = [result c n title ids failed]\<rparr>)"
        by (simp add: dump_def default_timeout_def)
    }
    {
      assume nto: "\<not> isinstance e TimeoutError"
      let ?w6 = "?w5\<lparr>remote := s'', calls := calls ?w5 @ [AExit]\<rparr>"
      from ax have ex: "issue AExit (aexit c)
          (case Some e of None \<Rightarrow> dump (result c n title ids failed) ?w5
             | Some e \<Rightarrow> ?w5) = (y, ?w6)"
        by (simp add: issue_def)
      from nto escape t have p2: "wait_for_sources_phase2 c n ids default_timeout w = (Some e, ?w5)"
        by simp
      from main_after_phase1 [OF i p2 ex]
      have "main c stdin_json (start s0) =
              (1, dump (error_result (case y of None \<Rightarrow> e | Some e2 \<Rightarrow> e2)) ?w6)"
        by (cases y) simp_all
      with out t show "main c stdin_json (start s0)
                 = (1, \<lparr>remote = s'',
                        calls = calls w @ [WaitForSources n ids 120, AExit],
                        stdout = [error_result (case y of None \<Rightarrow> e | Some e2 \<Rightarrow> e2)]\<rparr>)"
        by (simp add: dump_def default_timeout_def)
    }
  qed
  from swallow escape run show ?thesis by blast
qed

text \<open>
  One URL, added; the wait raises. A \<open>TimeoutError\<close>: status 0 and the normal report,
  with no error. An \<open>RPCError\<close>: status 1 and the degenerate report.
\<close>

theorem wait_timeout_swallowed_witness:
  "main (mock_env (Inr my_docs) [] add_answer_test (Some (Exn TimeoutError [] ''timed out'')) None)
     (Inr (JObj [(''notebook'', JStr ''Test''), (''urls'', JArr [JStr ''https://a.com''])]))
     (start 0)
   = (0, \<lparr>remote = 1,
          calls = [FromStorage, AEnter, NotebooksGet (JStr ''Test''),
                   SourcesAddUrl ''found-id-789'' (JStr ''https://a.com'') False,
                   WaitForSources ''found-id-789'' [''src-1''] 120, AExit],
          stdout = [JObj [(''notebook_id'', JStr ''found-id-789''),
                          (''notebook_title'', JStr ''My Docs''),
                          (''added'', JInt 1), (''failed'', JInt 0),
                          (''errors'', JArr [])]]\<rparr>) \<and>
   main (mock_env (Inr my_docs) [] add_answer_test (Some (Exn RPCError [] ''boom'')) None)
     (Inr (JObj [(''notebook'', JStr ''Test''), (''urls'', JArr [JStr ''https://a.com''])]))
     (start 0)
   = (1, \<lparr>remote = 1,
          calls = [FromStorage, AEnter, NotebooksGet (JStr ''Test''),
                   SourcesAddUrl ''found-id-789'' (JStr ''https://a.com'') False,
                   WaitForSources ''found-id-789'' [''src-1''] 120, AExit],
          stdout = [JObj [(''notebook_id'', JStr []), (''notebook_title'', JStr []),
                          (''added'', JInt 0), (''failed'', JInt 0),
                          (''errors'', JArr [JStr ''Script error: boom''])]]\<rparr>)"
proof -
  let ?urls = "JArr [JStr ''https://a.com'']"
  let ?input = "JObj [(''notebook'', JStr ''Test''), (''urls'', ?urls)]"
  let ?w1 = "\<lparr>remote = 0 :: nat, calls = [FromStorage], stdout = []\<rparr>"
  let ?w2 = "\<lparr>remote = 0 :: nat, calls = [FromStorage, AEnter], stdout = []\<rparr>"
  let ?w3 = "\<lparr>remote = 0 :: nat, calls = [FromStorage, AEnter, NotebooksGet (JStr ''Test'')],
              stdout = []\<rparr>"
  let ?w4 = "\<lparr>remote = 1 :: nat,
              calls = [FromStorage, AEnter, NotebooksGet (JStr ''Test''),
                       SourcesAddUrl ''found-id-789'' (JStr ''https://a.com'') False],
              stdout = []\<rparr>"
  have chain: "default_timeout = default_timeout \<and>
           (Inr ?input :: exn + json) = Inr ?input \<and>
           subscript ?input ''notebook'' = Inr (JStr ''Test'') \<and>
           subscript ?input ''urls'' = Inr ?urls \<and>
           issue FromStorage (from_storage (mock_env (Inr my_docs) [] add_answer_test x None)) (start 0)
             = (None, ?w1) \<and>
           issue AEnter (aenter (mock_env (Inr my_docs) [] add_answer_test x None)) ?w1 = (None, ?w2) \<and>
           resolve_notebook (mock_env (Inr my_docs) [] add_answer_test x None) (JStr ''Test'') ?w2
             = (Inr (''found-id-789'', ''My Docs''), ?w3) \<and>
           add_urls_phase1 (mock_env (Inr my_docs) [] add_answer_test x None) ''found-id-789'' ?urls ?w3
             = (Inr ([''src-1''], []), ?w4) \<and>
           aexit (mock_env (Inr my_docs) [] add_answer_test x None) 1 = (None, 1)" for x
    by (simp add: issue_def mock_env_def start_def resolve_notebook_def my_docs_def
          add_urls_phase1_def add_answer_test_def)
  have raises: "sources_wait_for_sources (mock_env (Inr my_docs) [] add_answer_test (Some e) None)
                  ''found-id-789'' [''src-1''] default_timeout (remote ?w4) = (Some e, 1)" for e
    by (simp add: mock_env_def)
  have ne: "[''src-1''] \<noteq> []" by simp
  note timeout = wait_timeout_swallowed [OF raises ne, THEN conjunct2, THEN conjunct2,
      rule_format, OF chain, THEN conjunct1, rule_format, of "Exn TimeoutError [] ''timed out''"]
  note other = wait_timeout_swallowed [OF raises ne, THEN conjunct2, THEN conjunct2,
      rule_format, OF chain, THEN conjunct2, rule_format, of "Exn RPCError [] ''boom''"]
  from timeout other show ?thesis
    by (simp add: result_def error_result_def error_messages_def isinstance_def)
qed

text \<open>
  C9. With \<open>g\<close> what get-by-id answers: the listing is called exactly when \<open>g\<close> is an
  exception that \<^verbatim>\<open>except RPCError\<close> catches, one of class \<open>RPCError\<close> or of a class derived
  from it. After such an exception the resolution goes on with the listing, and an
  exception that leaves it is one a later step raised (the listing, \<open>lower\<close>, the
  creation), not the one of step 1 as such. Any other exception leaves
  \<open>resolve_notebook\<close> as it is, after the one call; in a run of \<open>main\<close> it reaches the
  outer handler: the degenerate report, status 1, and nothing called after get-by-id but
  the release.
\<close>

theorem resolve_fallback_only_on_rpc_error:
  assumes "notebooks_get c target (remote w) = (g, s1)"
      and "resolve_notebook c target w = (r, w')"
  shows "((NotebooksList \<in> set (drop (length (calls w)) (calls w')))
            = (\<exists>e. g = Inl e \<and> isinstance e RPCError)) \<and>
         (\<forall>e. g = Inl e \<and> isinstance e RPCError \<longrightarrow>
            take 2 (drop (length (calls w)) (calls w')) = [NotebooksGet target, NotebooksList] \<and>
            (\<forall>e'. r = Inl e' \<longrightarrow>
               fst (notebooks_list c s1) = Inl e' \<or> target_lower c target = Inl e' \<or>
               fst (notebooks_create c target (snd (notebooks_list c s1))) = Inl e')) \<and>
         (\<forall>e. g = Inl e \<and> \<not> isinstance e RPCError \<longrightarrow>
            r = Inl e \<and> w' = w\<lparr>remote := s1, calls := calls w @ [NotebooksGet target]\<rparr>) \<and>
         (\<forall>e stdin_json input urls s0 w1 y s2.
            g = Inl e \<and> \<not> isinstance e RPCError \<and>
            stdin_json = Inr input \<and>
            subscript input ''notebook'' = Inr target \<and>
            subscript input ''urls'' = Inr urls \<and>
            issue FromStorage (from_storage c) (start s0) = (None, w1) \<and>
            issue AEnter (aenter c) w1 = (None, w) \<and>
            aexit c s1 = (y, s2) \<longrightarrow>
            main c stdin_json (start s0)
              = (1, \<lparr>remote = s2,
                     calls = [FromStorage, AEnter, NotebooksGet target, AExit],
                     stdout = [error_result (case y of None \<Rightarrow> e | Some e2 \<Rightarrow> e2)]\<rparr>))"
proof -
  let ?wg = "w\<lparr>remote := s1, calls := calls w @ [NotebooksGet target]\<rparr>"
  have other: "r = Inl e \<and> w' = ?wg" if "g = Inl e \<and> \<not> isinstance e RPCError" for e
    using assms that by (simp add: resolve_notebook_def issue_def)
  have ok: "w' = ?wg" if "g = Inr nb" for nb
    using assms that by (auto simp: resolve_notebook_def issue_def)
  have rpc: "take 2 (drop (length (calls w)) (calls w')) = [NotebooksGet target, NotebooksList] \<and>
            (\<forall>e'. r = Inl e' \<longrightarrow>
               fst (notebooks_list c s1) = Inl e' \<or> target_lower c target = Inl e' \<or>
               fst (notebooks_create c target (snd (notebooks_list c s1))) = Inl e')"
    if "g = Inl e \<and> isinstance e RPCError" for e
    using assms that
    by (auto simp: resolve_notebook_def issue_def
             split: prod.splits sum.splits option.splits)
  have iff: "(NotebooksList \<in> set (drop (length (calls w)) (calls w')))
            = (\<exists>e. g = Inl e \<and> isinstance e RPCError)"
  proof (cases g)
    case (Inr nb)
    with ok [OF Inr] show ?thesis by simp
  next
    case (Inl e)
    show ?thesis
    proof (cases "isinstance e RPCError")
      case True
      with rpc [of e] Inl
      have "take 2 (drop (length (calls w)) (calls w')) = [NotebooksGet target, NotebooksList]"
        by simp
      then have "NotebooksList \<in> set (take 2 (drop (length (calls w)) (calls w')))" by simp
      then have "NotebooksList \<in> set (drop (length (calls w)) (calls w'))"
        by (rule in_set_takeD)
      with Inl True show ?thesis by simp
    next
      case False
      with other [of e] Inl show ?thesis by simp
    qed
  qed
  have fatal: "main c stdin_json (start s0)
              = (1, \<lparr>remote = s2,
                     calls = [FromStorage, AEnter, NotebooksGet target, AExit],
                     stdout = [error_result (case y of None \<Rightarrow> e | Some e2 \<Rightarrow> e2)]\<rparr>)"
    if h: "g = Inl e \<and> \<not> isinstance e RPCError \<and>
            stdin_json = Inr input \<and>
            subscript input ''notebook'' = Inr target \<and>
            subscript input ''urls'' = Inr urls \<and>
            issue FromStorage (from_storage c) (start s0) = (None, w1) \<and>
            issue AEnter (aenter c) w1 = (None, w) \<and>
            aexit c s1 = (y, s2)"
    for e stdin_json input urls s0 w1 y s2
  proof -
    from h have i: "stdin_json = Inr input" "subscript input ''notebook'' = Inr target"
      "subscript input ''urls'' = Inr urls"
      "issue FromStorage (from_storage c) (start s0) = (None, w1)"
      "issue AEnter (aenter c) w1 = (None, w)"
      and ax: "aexit c s1 = (y, s2)" and ge: "g = Inl e \<and> \<not> isinstance e RPCError"
      by simp_all
    from session_frame [OF i(4,5)] have fr: "stdout w = []" "calls w = [FromStorage, AEnter]"
      by simp_all
    from other [OF ge] assms(2) have blk: "main_block c target urls w = (Some e, ?wg)"
      by (simp add: main_block_def)
    let ?w4 = "?wg\<lparr>remote := s2, calls := calls ?wg @ [AExit]\<rparr>"
    from ax have ex: "issue AExit (aexit c) ?wg = (y, ?w4)" by (simp add: issue_def)
    from main_session [OF i blk ex]
    have "main c stdin_json (start s0)
            = (1, dump (error_result (case y of None \<Rightarrow> e | Some e2 \<Rightarrow> e2)) ?w4)"
      by (cases y) simp_all
    with fr show ?thesis by (simp add: dump_def)
  qed
  from iff rpc other fatal show ?thesis by blast
qed

text \<open>
  Get-by-id raises an exception that is no \<open>RPCError\<close>: no listing, no creation, no
  submission; the degenerate report with its message and status 1. Get-by-id raises a
  \<open>RateLimitError\<close> of a library that derives it from \<open>RPCError\<close>: the listing is called and
  the notebook is found by title.
\<close>

theorem resolve_fallback_only_on_rpc_error_witness:
  "main (mock_env (Inl (Exn OtherException [] ''auth failed'')) [my_docs] add_answer_test None None)
     (Inr (JObj [(''notebook'', JStr ''My Docs''), (''urls'', JArr [JStr ''https://a.com''])]))
     (start 0)
   = (1, \<lparr>remote = 0,
          calls = [FromStorage, AEnter, NotebooksGet (JStr ''My Docs''), AExit],
          stdout = [JObj [(''notebook_id'', JStr []), (''notebook_title'', JStr []),
                          (''added'', JInt 0), (''failed'', JInt 0),
                          (''errors'', JArr [JStr ''Script error: auth failed''])]]\<rparr>) \<and>
   fst (resolve_notebook
          (mock_env (Inl (Exn RateLimitError [RPCError] ''rate limited'')) [my_docs]
             add_answer_test None None)
          (JStr ''My Docs'') (start 0))
     = Inr (''found-id-789'', ''My Docs'') \<and>
   NotebooksList \<in> set (calls (snd (resolve_notebook
          (mock_env (Inl (Exn RateLimitError [RPCError] ''rate limited'')) [my_docs]
             add_answer_test None None)
          (JStr ''My Docs'') (start 0))))"
proof -
  let ?c = "mock_env (Inl (Exn OtherException [] ''auth failed'')) [my_docs] add_answer_test None None"
  let ?urls = "JArr [JStr ''https://a.com'']"
  let ?input = "JObj [(''notebook'', JStr ''My Docs''), (''urls'', ?urls)]"
  let ?w1 = "\<lparr>remote = 0 :: nat, calls = [FromStorage], stdout = []\<rparr>"
  let ?w2 = "\<lparr>remote = 0 :: nat, calls = [FromStorage, AEnter], stdout = []\<rparr>"
  let ?run = "resolve_notebook ?c (JStr ''My Docs'') ?w2"
  have get: "notebooks_get ?c (JStr ''My Docs'') (remote ?w2)
             = (Inl (Exn OtherException [] ''auth failed''), 0)"
    by (simp add: mock_env_def)
  have run: "?run = (fst ?run, snd ?run)" by simp
  have h: "(Inl (Exn OtherException [] ''auth failed'') :: exn + notebook)
             = Inl (Exn OtherException [] ''auth failed'') \<and>
           \<not> isinstance (Exn OtherException [] ''auth failed'') RPCError \<and>
           (Inr ?input :: exn + json) = Inr ?input \<and>
           subscript ?input ''notebook'' = Inr (JStr ''My Docs'') \<and>
           subscript ?input ''urls'' = Inr ?urls \<and>
           issue FromStorage (from_storage ?c) (start 0) = (None, ?w1) \<and>
           issue AEnter (aenter ?c) ?w1 = (None, ?w2) \<and>
           aexit ?c 0 = (None, 0)"
    by (simp add: issue_def mock_env_def start_def isinstance_def)
  note fourth = resolve_fallback_only_on_rpc_error [OF get run, THEN conjunct2, THEN conjunct2,
      THEN conjunct2, rule_format, OF h]
  let ?d = "mock_env (Inl (Exn RateLimitError [RPCError] ''rate limited'')) [my_docs]
              add_answer_test None None"
  let ?rd = "resolve_notebook ?d (JStr ''My Docs'') (start 0)"
  have getd: "notebooks_get ?d (JStr ''My Docs'') (remote (start 0))
             = (Inl (Exn RateLimitError [RPCError] ''rate limited''), 0)"
    by (simp add: mock_env_def start_def)
  have rund: "?rd = (fst ?rd, snd ?rd)" by simp
  have inst: "\<exists>e. (Inl (Exn RateLimitError [RPCError] ''rate limited'') :: exn + notebook) = Inl e \<and>
                isinstance e RPCError"
    by (simp add: isinstance_def)
  note first = resolve_fallback_only_on_rpc_error [OF getd rund, THEN conjunct1]
  from first inst
  have "NotebooksList \<in> set (drop (length (calls (start (0::nat)))) (calls (snd ?rd)))"
    by simp
  then have listed: "NotebooksList \<in> set (calls (snd ?rd))" by (simp add: start_def)
  have found: "fst ?rd = Inr (''found-id-789'', ''My Docs'')"
    by (simp add: resolve_notebook_def issue_def mock_env_def start_def isinstance_def
          my_docs_def ascii_lower_def ascii_lower_char_def)
  from fourth listed found show ?thesis by (simp add: error_result_def)
qed

subsection \<open>The reports of a run\<close>

text \<open>
  Every run writes one report or two. It writes two only on the path where the block of
  the \<^verbatim>\<open>async with\<close> has written the normal report and the release of the session then
  raises: the handler writes the degenerate report after it and the status is 1. On
  every other path one report is written: the normal one with status 0, or the
  degenerate one with status 1.
\<close>

lemma main_reports:
  assumes "main c stdin_json (start s) = (code, w')"
  shows "(\<exists>n title ids failed. code = 0 \<and> stdout w' = [result c n title ids failed]) \<or>
         (\<exists>e. code = 1 \<and> stdout w' = [error_result e]) \<or>
         (\<exists>n title ids failed e2 s3.
            code = 1 \<and> fst (aexit c s3) = Some e2 \<and>
            stdout w' = [result c n title ids failed, error_result e2])"
proof -
  obtain x wt where t: "main_try c stdin_json (start s) = (x, wt)" by (metis surj_pair)
  show ?thesis
  proof (cases "\<exists>input target urls w1 w2.
                  stdin_json = Inr input \<and> subscript input ''notebook'' = Inr target \<and>
                  subscript input ''urls'' = Inr urls \<and>
                  issue FromStorage (from_storage c) (start s) = (None, w1) \<and>
                  issue AEnter (aenter c) w1 = (None, w2)")
    case False
    with t have "stdout wt = [] \<and> x \<noteq> None"
      by (auto simp: main_try_def issue_eq start_def
               split: sum.splits option.splits prod.splits) metis+
    then obtain e where "stdout wt = []" "x = Some e" by auto
    with t assms have "code = 1 \<and> stdout w' = [error_result e]"
      by (auto simp: main_def dump_def)
    then show ?thesis by blast
  next
    case True
    then obtain input target urls w1 w2 where
      i: "stdin_json = Inr input" "subscript input ''notebook'' = Inr target"
         "subscript input ''urls'' = Inr urls"
         "issue FromStorage (from_storage c) (start s) = (None, w1)"
         "issue AEnter (aenter c) w1 = (None, w2)"
      by blast
    from session_frame [OF i(4,5)] have o2: "stdout w2 = []" by simp
    obtain rb w3 where blk: "main_block c target urls w2 = (rb, w3)" by (metis surj_pair)
    obtain y w4 where ex: "issue AExit (aexit c) w3 = (y, w4)" by (metis surj_pair)
    then have o4: "stdout w4 = stdout w3" and y: "y = fst (aexit c (remote w3))"
      by (simp_all add: issue_eq)
    note m = main_session [OF i blk ex]
    have o3: "(rb = None \<and> (\<exists>n title ids failed. stdout w3 = [result c n title ids failed])) \<or>
              (rb \<noteq> None \<and> stdout w3 = [])"
    proof -
      obtain r1 v1 where a: "resolve_notebook c target w2 = (r1, v1)" by (metis surj_pair)
      note fa = resolve_notebook_frame [OF a]
      show ?thesis
      proof (cases r1)
        case (Inl e)
        with a blk fa o2 show ?thesis by (auto simp: main_block_def)
      next
        case (Inr p)
        obtain n title where p: "p = (n, title)" by (cases p)
        obtain r2 v2 where b: "add_urls_phase1 c n urls v1 = (r2, v2)" by (metis surj_pair)
        note fb = add_urls_phase1_frame [OF b]
        show ?thesis
        proof (cases r2)
          case (Inl e)
          with a Inr p b blk fa fb o2 show ?thesis by (auto simp: main_block_def)
        next
          case (Inr q)
          obtain ids failed where q: "q = (ids, failed)" by (cases q)
          obtain z v3 where d: "wait_for_sources_phase2 c n ids default_timeout v2 = (z, v3)"
            by (metis surj_pair)
          note fd = wait_for_sources_phase2_frame [OF d]
          from a \<open>r1 = Inr p\<close> p b Inr q d blk fa fb fd o2
          have "(rb = None \<and> stdout w3 = [result c n title ids failed]) \<or>
                (rb \<noteq> None \<and> stdout w3 = [])"
            by (cases z) (auto simp: main_block_def dump_def)
          then show ?thesis by blast
        qed
      qed
    qed
    show ?thesis
    proof (cases y)
      case (Some e2)
      with m assms have c: "code = 1" "stdout w' = stdout w4 @ [error_result e2]"
        by (auto simp: dump_def)
      from o3 show ?thesis
      proof
        assume "rb = None \<and> (\<exists>n title ids failed. stdout w3 = [result c n title ids failed])"
        then obtain n title ids failed where "stdout w3 = [result c n title ids failed]"
          by blast
        with c o4 Some y have "code = 1 \<and> fst (aexit c (remote w3)) = Some e2 \<and>
            stdout w' = [result c n title ids failed, error_result e2]"
          by simp
        then show ?thesis by blast
      next
        assume "rb \<noteq> None \<and> stdout w3 = []"
        with c o4 have "code = 1 \<and> stdout w' = [error_result e2]" by simp
        then show ?thesis by blast
      qed
    next
      case None
      from o3 show ?thesis
      proof
        assume a: "rb = None \<and> (\<exists>n title ids failed. stdout w3 = [result c n title ids failed])"
        then obtain n title ids failed where "stdout w3 = [result c n title ids failed]"
          by blast
        with a m assms None o4 have "code = 0 \<and> stdout w' = [result c n title ids failed]"
          by auto
        then show ?thesis by blast
      next
        assume a: "rb \<noteq> None \<and> stdout w3 = []"
        then obtain e where "rb = Some e" by auto
        with a m assms None o4 have "code = 1 \<and> stdout w' = [error_result e]"
          by (auto simp: dump_def)
        then show ?thesis by blast
      qed
    qed
  qed
qed

text \<open>
  C4. One object on standard output is what \<open>main\<close> writes on every path but one. The
  request \<^verbatim>\<open>{"notebook": "Test", "urls": ["https://a.com"]}\<close>, every call succeeding, and
  a release of the session that raises: \<^verbatim>\<open>json.dump(result, ...)\<close> stands inside the
  \<^verbatim>\<open>async with\<close>, so the normal report is out when the release raises, the handler
  writes the degenerate report behind it, and the status is 1. Standard output holds
  two objects.
\<close>

theorem main_two_reports_when_release_raises:
  "main (mock_env (Inr my_docs) [] add_answer_test None (Some (Exn OtherException [] ''close failed'')))
     (Inr (JObj [(''notebook'', JStr ''Test''), (''urls'', JArr [JStr ''https://a.com''])]))
     (start 0)
   = (1, \<lparr>remote = 1,
          calls = [FromStorage, AEnter, NotebooksGet (JStr ''Test''),
                   SourcesAddUrl ''found-id-789'' (JStr ''https://a.com'') False,
                   WaitForSources ''found-id-789'' [''src-1''] 120, AExit],
          stdout = [JObj [(''notebook_id'', JStr ''found-id-789''),
                          (''notebook_title'', JStr ''My Docs''),
                          (''added'', JInt 1), (''failed'', JInt 0),
                          (''errors'', JArr [])],
                    JObj [(''notebook_id'', JStr []), (''notebook_title'', JStr []),
                          (''added'', JInt 0), (''failed'', JInt 0),
                          (''errors'', JArr [JStr ''Script error: close failed''])]]\<rparr>)"
  by (simp add: main_def main_try_def main_block_def resolve_notebook_def add_urls_phase1_def
        wait_for_sources_phase2_def issue_def mock_env_def add_answer_test_def start_def
        my_docs_def dump_def default_timeout_def result_def error_result_def error_messages_def)

end
